theory Spec2Isabelle
  imports Main "HOL-Library.Word" "HOL-Library.List_Lexorder" "HOL-Library.Signed_Division"
begin

section \<open>Machine types of \<^verbatim>\<open>python/lib.c\<close>\<close>

text \<open>
  The binding is compiled for an LP64 target: \<^verbatim>\<open>size_t\<close> and \<^verbatim>\<open>ssize_t\<close>
  (\<^verbatim>\<open>Py_ssize_t\<close>) are 64-bit words. One word type serves both; a value is read
  unsigned with \<open>unat\<close>/\<open>uint\<close> and signed with \<open>sint\<close>, and the signed comparisons of
  the source are \<open><s\<close> and \<open>\<le>s\<close>. Mixed arithmetic such as \<^verbatim>\<open>start += length\<close> converts
  to the unsigned type, adds modulo \<open>2 ^ 64\<close> and converts back, which is word addition.
\<close>

type_synonym size_t = "64 word"
type_synonym ssize_t = "64 word"
type_synonym byte = "8 word"

text \<open>Addresses (\<^verbatim>\<open>char const *\<close>, \<^verbatim>\<open>void *\<close>) are natural numbers, \<^verbatim>\<open>NULL\<close> is 0.\<close>

type_synonym addr = nat
type_synonym memory = "addr \<Rightarrow> byte"

text \<open>\<^verbatim>\<open>PyObject *\<close>: the identity of a Python object.\<close>

type_synonym ref = nat

definition PY_SSIZE_T_MAX :: ssize_t where
  "PY_SSIZE_T_MAX = 0x7FFFFFFFFFFFFFFF"

definition PY_SSIZE_T_MIN :: ssize_t where
  "PY_SSIZE_T_MIN = 0x8000000000000000"

section \<open>Helpers\<close>

subsection \<open>\<^verbatim>\<open>slice\<close>\<close>

text \<open>
  \<^verbatim>\<open>void slice(size_t length, ssize_t start, ssize_t end,
             size_t *normalized_offset, size_t *normalized_length)\<close>.
  The two out-parameters are returned as a pair. Each \<open>let\<close> line is one statement of
  the source, in its order.
\<close>

definition slice :: "size_t \<Rightarrow> ssize_t \<Rightarrow> ssize_t \<Rightarrow> size_t \<times> size_t" where
  "slice len start end =
     (let start = (if start <s 0 then start + len else start);
          end = (if end <s 0 then end + len else end);
          start = (if start <s 0 then 0 else start);
          end = (if end <s 0 then 0 else end);
          start = (if len <s start then len else start);
          end = (if len <s end then len else end);
          start = (if end <s start then end else start)
      in (start, end - start))"

text \<open>
  The Slice Normalizer as the specification words it, over unbounded integers: add
  \<open>length\<close> to a negative index, clamp both indices to \<open>[0, length]\<close>, force
  \<open>start = end\<close> when \<open>start > end\<close>; the result is \<open>(start, end - start)\<close>.
\<close>

definition slice_spec :: "int \<Rightarrow> int \<Rightarrow> int \<Rightarrow> int \<times> int" where
  "slice_spec len start end =
     (let start = (if start < 0 then start + len else start);
          end = (if end < 0 then end + len else end);
          start = max 0 (min len start);
          end = max 0 (min len end);
          start = (if start > end then end else start)
      in (start, end - start))"

subsection \<open>Objects\<close>

text \<open>
  An error is the exception the source leaves set when it returns \<^verbatim>\<open>NULL\<close> or
  \<^verbatim>\<open>-1\<close>. Those raised through \<^verbatim>\<open>PyErr_SetString\<close> carry the source's message.
  \<open>ArgumentError\<close> stands for the exception set inside \<^verbatim>\<open>PyArg_ParseTuple\<close> when the
  argument tuple does not match the format, \<open>SystemError\<close> for a \<^verbatim>\<open>NULL\<close> return with no
  exception set. A function that returns a value while an exception is still set gives
  both: the value and the pending exception.
\<close>

datatype py_error =
    TypeError string
  | RuntimeError string
  | IndexError string
  | ValueError string
  | UnicodeDecodeError
  | OverflowError
  | ArgumentError
  | SystemError

text \<open>
  \<^verbatim>\<open>typedef struct { PyObject_HEAD; int file_descriptor; void *start; size_t length; }
  MemoryMappedFile\<close> (the POSIX build) and
  \<^verbatim>\<open>typedef struct { PyObject_HEAD; PyObject *parent; char const *start; size_t length; }
  Str\<close>. The fields \<^verbatim>\<open>start\<close> and \<^verbatim>\<open>length\<close> are suffixed with the struct they
  belong to.
\<close>

record MemoryMappedFile =
  file_descriptor :: int
  start_file :: addr
  length_file :: size_t

record Str =
  parent :: "ref option"
  start_str :: addr
  length_str :: size_t

text \<open>
  The Python objects the binding inspects. A native \<^verbatim>\<open>str\<close> or \<^verbatim>\<open>bytes\<close> is given by
  the buffer \<^verbatim>\<open>PyUnicode_AsUTF8AndSize\<close> or \<^verbatim>\<open>PyBytes_AsStringAndSize\<close> exports; an
  \<^verbatim>\<open>int\<close> by its unbounded value; a \<^verbatim>\<open>slice\<close> by its three fields, each \<^verbatim>\<open>None\<close> or
  an \<^verbatim>\<open>int\<close>.
\<close>

datatype pyobject =
    PyUnicode addr size_t
  | PyBytes addr size_t
  | PyStr Str
  | PyFile MemoryMappedFile
  | PyLong int
  | PyNone
  | PySlice "int option" "int option" "int option"
  | PyOther

text \<open>
  What a function hands back to the interpreter: a freshly allocated \<^verbatim>\<open>Str\<close> (by its
  fields), a fresh native \<^verbatim>\<open>str\<close> (by its UTF-8 bytes), a \<^verbatim>\<open>bool\<close>, an \<^verbatim>\<open>int\<close>, or
  \<^verbatim>\<open>NotImplemented\<close>. Allocation (\<^verbatim>\<open>tp_alloc\<close>, \<^verbatim>\<open>PyObject_New\<close>) is taken to succeed.
\<close>

datatype pyresult =
    NewStr Str
  | NewUnicode "byte list"
  | NewBool bool
  | NewLong int
  | NotImplemented

text \<open>Reference counts, per object identity; \<^verbatim>\<open>Py_INCREF\<close> adds one.\<close>

type_synonym refcounts = "ref \<Rightarrow> nat"

definition Py_INCREF :: "refcounts \<Rightarrow> ref \<Rightarrow> refcounts" where
  "Py_INCREF rc r = rc(r := Suc (rc r))"

text \<open>The \<open>n\<close> bytes of memory from address \<open>p\<close> on.\<close>

fun bytes_at :: "memory \<Rightarrow> addr \<Rightarrow> nat \<Rightarrow> byte list" where
  "bytes_at mem p 0 = []"
| "bytes_at mem p (Suc n) = mem p # bytes_at mem (Suc p) n"

text \<open>
  \<^verbatim>\<open>PyLong_AsSsize_t\<close> belongs to CPython. It returns the value when it fits
  \<^verbatim>\<open>Py_ssize_t\<close> and sets no exception; for an \<^verbatim>\<open>int\<close> out of that range it returns
  \<open>-1\<close> and sets \<^verbatim>\<open>OverflowError\<close>; for an object that is no \<^verbatim>\<open>int\<close> it returns \<open>-1\<close>
  and sets \<^verbatim>\<open>TypeError\<close>. The result is the value and the exception set, if any. No
  caller in the source tests for the exception: it goes on with \<open>-1\<close>, and the exception
  stays pending.
\<close>

definition PyLong_AsSsize_t :: "pyobject \<Rightarrow> ssize_t \<times> py_error option" where
  "PyLong_AsSsize_t object =
     (case object of
        PyLong v \<Rightarrow>
          (if - (2 ^ 63) \<le> v \<and> v < 2 ^ 63 then (word_of_int v, None)
           else (- 1, Some OverflowError))
      | _ \<Rightarrow> (- 1, Some (TypeError ''an integer is required'')))"

text \<open>
  The exception pending after two calls that may each set one: the later call replaces
  what the earlier one set.
\<close>

definition pending_after :: "py_error option \<Rightarrow> py_error option \<Rightarrow> py_error option" where
  "pending_after earlier later = (case later of None \<Rightarrow> earlier | Some e \<Rightarrow> Some e)"

definition PyLong_Check :: "pyobject \<Rightarrow> bool" where
  "PyLong_Check object = (case object of PyLong v \<Rightarrow> True | _ \<Rightarrow> False)"

subsection \<open>\<^verbatim>\<open>export_string_like\<close>\<close>

text \<open>
  \<^verbatim>\<open>int export_string_like(PyObject *object, char const **start, size_t *length)\<close>:
  \<open>Some (start, length)\<close> for the return value 1, \<open>None\<close> for 0. The branches are the
  source's type tests in order. \<^verbatim>\<open>PyBytes_AsStringAndSize\<close> with a length out-parameter
  does not fail on an object that passed \<^verbatim>\<open>PyBytes_Check\<close>, so its error branch has no
  input.
\<close>

definition export_string_like :: "pyobject \<Rightarrow> (addr \<times> size_t) option" where
  "export_string_like object =
     (case object of
        PyUnicode p n \<Rightarrow> Some (p, n)
      | PyBytes p n \<Rightarrow> Some (p, n)
      | PyStr str \<Rightarrow> Some (start_str str, length_str str)
      | PyFile file \<Rightarrow> Some (start_file file, length_file file)
      | _ \<Rightarrow> None)"

section \<open>External kernels\<close>

text \<open>
  \<^verbatim>\<open>strzl_neon_find_substr\<close> and \<^verbatim>\<open>strzl_hash_crc32_native\<close> come from
  \<^verbatim>\<open>stringzilla.h\<close>, which is not among the sources. The functions of
  \<^verbatim>\<open>lib.c\<close> take them as parameters: a search kernel reads memory at a haystack range
  and a needle range (pointer and length; \<^verbatim>\<open>anomaly_offset\<close> is always 0) and returns a
  \<^verbatim>\<open>size_t\<close>; a hash kernel reads memory at a range and returns a 32-bit checksum.
\<close>

type_synonym find_kernel = "memory \<Rightarrow> addr \<times> size_t \<Rightarrow> addr \<times> size_t \<Rightarrow> size_t"
type_synonym hash_kernel = "memory \<Rightarrow> addr \<Rightarrow> size_t \<Rightarrow> 32 word"

text \<open>
  Modelled from the spec: \<^verbatim>\<open>substring_find(haystack, needle) -> position\<close>, the search
  kernel of \<^verbatim>\<open>stringzilla.h\<close>, is missing. The specification gives it as a pure function
  of the two byte ranges that returns an index in \<open>[0, haystack.length]\<close>, with
  \<open>haystack.length\<close> the "not found" sentinel and the empty needle found at position 0.
  \<open>find_first\<close> is the index of the first occurrence, or the length of the haystack.
\<close>

fun find_first :: "byte list \<Rightarrow> byte list \<Rightarrow> nat" where
  "find_first [] needle = 0"
| "find_first (h # hs) needle =
     (if take (length needle) (h # hs) = needle then 0 else Suc (find_first hs needle))"

definition substring_find :: find_kernel where
  "substring_find mem haystack needle =
     of_nat (find_first (bytes_at mem (fst haystack) (unat (snd haystack)))
                        (bytes_at mem (fst needle) (unat (snd needle))))"

text \<open>
  Modelled from the spec: \<^verbatim>\<open>content_hash(range)\<close>, the hash kernel of
  \<^verbatim>\<open>stringzilla.h\<close>, is missing. The specification gives it as a deterministic, pure
  function of the bytes: \<open>content_pure\<close> says so of a kernel. \<open>content_hash\<close> is one such
  function, a 32-bit polynomial checksum of the bytes in order; the checksum the real
  kernel computes is not specified.
\<close>

definition content_pure :: "hash_kernel \<Rightarrow> bool" where
  "content_pure k =
     (\<forall>m1 p1 m2 p2 n. bytes_at m1 p1 (unat n) = bytes_at m2 p2 (unat n) \<longrightarrow> k m1 p1 n = k m2 p2 n)"

definition content_hash :: hash_kernel where
  "content_hash mem p n = foldl (\<lambda>h b. h * 31 + ucast b) 0 (bytes_at mem p (unat n))"

section \<open>Global functions\<close>

text \<open>
  \<^verbatim>\<open>str_find_vectorcall\<close>: \<open>args\<close> are the positional arguments (\<^verbatim>\<open>kwnames\<close> is
  not read by the source). \<open>Inr (r, pending)\<close> is the return of
  \<^verbatim>\<open>PyLong_FromSize_t(position)\<close> together with the exception that the unchecked
  conversions of the bounds left set, if any.
\<close>

definition str_find_vectorcall ::
  "find_kernel \<Rightarrow> memory \<Rightarrow> pyobject list \<Rightarrow> py_error + pyresult \<times> py_error option" where
  "str_find_vectorcall strzl_find mem args =
     (let nargs = length args in
      if nargs < 2 \<or> nargs > 4 then Inl (TypeError ''Invalid arguments'')
      else
        (case export_string_like (args ! 0) of
           None \<Rightarrow> Inl (TypeError ''First argument (haystack) must be string-like'')
         | Some (haystack_ptr, haystack_len) \<Rightarrow>
             (case export_string_like (args ! 1) of
                None \<Rightarrow> Inl (TypeError ''Second argument (needle) must be string-like'')
              | Some needle \<Rightarrow>
                  (let (start, start_error) =
                         (if nargs > 2 then PyLong_AsSsize_t (args ! 2) else (0, None));
                       (end, end_error) =
                         (if nargs > 3 then PyLong_AsSsize_t (args ! 3)
                          else (PY_SSIZE_T_MAX, None));
                       (normalized_offset, normalized_length) = slice haystack_len start end;
                       haystack_ptr = haystack_ptr + unat normalized_offset;
                       haystack_len = normalized_length;
                       position = strzl_find mem (haystack_ptr, haystack_len) needle
                   in Inr (NewLong (uint position), pending_after start_error end_error)))))"

section \<open>MemoryMappedFile\<close>

subsection \<open>The POSIX build\<close>

text \<open>
  The operating system as the two functions see it: the descriptors that are open, the
  mappings that are live, and a log of the release calls issued (\<^verbatim>\<open>close\<close>,
  \<^verbatim>\<open>munmap\<close>, and the interpreter's \<^verbatim>\<open>tp_free\<close>, with the fields of the object as
  they stand when it is freed), oldest first.
\<close>

datatype release_call =
    Close_call int
  | Munmap_call addr size_t
  | Tp_free_call MemoryMappedFile

record posix_os =
  open_fds :: "int set"
  mappings :: "(addr \<times> size_t) set"
  release_log :: "release_call list"

text \<open>
  What the system calls of one \<^verbatim>\<open>MemoryMappedFile_init\<close> answer: the descriptor
  \<^verbatim>\<open>open\<close> returns (\<open>-1\<close> on failure), the \<^verbatim>\<open>st_size\<close> that \<^verbatim>\<open>fstat\<close> reports when it
  succeeds, and the address \<^verbatim>\<open>mmap\<close> returns (\<open>None\<close> for \<^verbatim>\<open>MAP_FAILED\<close>).
\<close>

record posix_outcome =
  open_returns :: int
  fstat_size :: "size_t option"
  mmap_returns :: "addr option"

definition sys_open :: "posix_outcome \<Rightarrow> posix_os \<Rightarrow> string \<Rightarrow> int \<times> posix_os" where
  "sys_open out os path =
     (let fd = open_returns out
      in if 0 \<le> fd then (fd, os\<lparr>open_fds := insert fd (open_fds os)\<rparr>) else (- 1, os))"

text \<open>
  \<^verbatim>\<open>fstat\<close> and \<^verbatim>\<open>close\<close> fail with \<^verbatim>\<open>EBADF\<close> on a descriptor that is negative
  or not open; the failed \<^verbatim>\<open>close\<close> changes nothing but is still a call.
\<close>

definition sys_fstat :: "posix_outcome \<Rightarrow> posix_os \<Rightarrow> int \<Rightarrow> size_t option" where
  "sys_fstat out os fd = (if 0 \<le> fd \<and> fd \<in> open_fds os then fstat_size out else None)"

definition sys_mmap :: "posix_outcome \<Rightarrow> posix_os \<Rightarrow> size_t \<Rightarrow> int \<Rightarrow> addr option \<times> posix_os" where
  "sys_mmap out os len fd =
     (case mmap_returns out of
        None \<Rightarrow> (None, os)
      | Some a \<Rightarrow> (Some a, os\<lparr>mappings := insert (a, len) (mappings os)\<rparr>))"

definition sys_close :: "posix_os \<Rightarrow> int \<Rightarrow> posix_os" where
  "sys_close os fd =
     os\<lparr>open_fds := (if 0 \<le> fd then open_fds os - {fd} else open_fds os),
        release_log := release_log os @ [Close_call fd]\<rparr>"

definition sys_munmap :: "posix_os \<Rightarrow> addr \<Rightarrow> size_t \<Rightarrow> posix_os" where
  "sys_munmap os a len =
     os\<lparr>mappings := mappings os - {(a, len)}, release_log := release_log os @ [Munmap_call a len]\<rparr>"

text \<open>
  The \<^verbatim>\<open>MemoryMappedFile\<close> objects that are allocated, by identity. \<^verbatim>\<open>tp_free\<close> gives
  the memory of the object back: the object is no longer there. Reading the fields of an
  object that has been freed is undefined in C; here it is the fault \<open>Use_after_free\<close>.
\<close>

datatype fault = Use_after_free

type_synonym file_objects = "ref \<rightharpoonup> MemoryMappedFile"

definition tp_free :: "file_objects \<Rightarrow> posix_os \<Rightarrow> ref \<Rightarrow> MemoryMappedFile \<Rightarrow> file_objects \<times> posix_os" where
  "tp_free objects os self_ref self =
     (objects(self_ref := None), os\<lparr>release_log := release_log os @ [Tp_free_call self]\<rparr>)"

text \<open>
  \<^verbatim>\<open>MemoryMappedFile_dealloc\<close>, \<^verbatim>\<open>#else\<close> branch, on the object at \<open>self_ref\<close>. The
  result is the allocated objects and the operating system after the call.
\<close>

definition MemoryMappedFile_dealloc ::
  "file_objects \<Rightarrow> ref \<Rightarrow> posix_os \<Rightarrow> fault + file_objects \<times> posix_os" where
  "MemoryMappedFile_dealloc objects self_ref os =
     (case objects self_ref of
        None \<Rightarrow> Inl Use_after_free
      | Some self \<Rightarrow>
          (let (self, os) =
                 (if start_file self \<noteq> 0
                  then (self\<lparr>start_file := 0, length_file := 0\<rparr>,
                        sys_munmap os (start_file self) (length_file self))
                  else (self, os));
               (self, os) =
                 (if file_descriptor self \<noteq> 0
                  then (self\<lparr>file_descriptor := 0\<rparr>, sys_close os (file_descriptor self))
                  else (self, os))
           in Inr (tp_free objects os self_ref self)))"

text \<open>\<^verbatim>\<open>MemoryMappedFile_new\<close>: the fields of a fresh object.\<close>

definition MemoryMappedFile_new :: MemoryMappedFile where
  "MemoryMappedFile_new = \<lparr>file_descriptor = 0, start_file = 0, length_file = 0\<rparr>"

text \<open>
  \<^verbatim>\<open>MemoryMappedFile_init\<close>, \<^verbatim>\<open>#else\<close> branch. \<open>args\<close> is the path that
  \<^verbatim>\<open>PyArg_ParseTuple(positional_args, "s", &path)\<close> extracts, \<open>None\<close> when it fails.
  \<open>Inr ()\<close> is the return value 0, \<open>Inl e\<close> the return value \<open>-1\<close> with \<open>e\<close> set. The
  value of \<^verbatim>\<open>open\<close> is stored and passed to \<^verbatim>\<open>fstat\<close> without a test, as in the source.
\<close>

definition MemoryMappedFile_init ::
  "posix_outcome \<Rightarrow> MemoryMappedFile \<Rightarrow> string option \<Rightarrow> posix_os
    \<Rightarrow> (py_error + unit) \<times> MemoryMappedFile \<times> posix_os" where
  "MemoryMappedFile_init out self args os =
     (case args of
        None \<Rightarrow> (Inl ArgumentError, self, os)
      | Some path \<Rightarrow>
          (let (fd, os) = sys_open out os path;
               self = self\<lparr>file_descriptor := fd\<rparr>
           in case sys_fstat out os (file_descriptor self) of
                None \<Rightarrow>
                  (Inl (RuntimeError ''Can't retrieve file size!''),
                   self\<lparr>file_descriptor := 0\<rparr>, sys_close os (file_descriptor self))
              | Some st_size \<Rightarrow>
                  (case sys_mmap out os st_size (file_descriptor self) of
                     (None, os) \<Rightarrow>
                       (Inl (RuntimeError ''Couldn't map the file!''),
                        self\<lparr>file_descriptor := 0\<rparr>, sys_close os (file_descriptor self))
                   | (Some mapped, os) \<Rightarrow>
                       (Inr (), self\<lparr>start_file := mapped, length_file := st_size\<rparr>, os))))"

subsection \<open>The Windows build\<close>

text \<open>
  A \<^verbatim>\<open>HANDLE\<close> is a pointer-sized value; \<^verbatim>\<open>NULL\<close> is 0 and
  \<^verbatim>\<open>INVALID_HANDLE_VALUE\<close> is \<^verbatim>\<open>(HANDLE)-1\<close>.
\<close>

type_synonym HANDLE = nat

definition INVALID_HANDLE_VALUE :: HANDLE where
  "INVALID_HANDLE_VALUE = 2 ^ 64 - 1"

record MemoryMappedFile_win =
  file_handle :: HANDLE
  mapping_handle :: HANDLE
  start_win :: addr
  length_win :: size_t

datatype win_call =
    CloseHandle_call HANDLE
  | UnmapViewOfFile_call addr
  | Tp_free_win_call MemoryMappedFile_win

record win_os =
  open_handles :: "HANDLE set"
  views :: "addr set"
  win_log :: "win_call list"

text \<open>
  What the calls of one initialisation answer: \<^verbatim>\<open>CreateFile\<close>
  (\<^verbatim>\<open>INVALID_HANDLE_VALUE\<close> on failure), \<^verbatim>\<open>CreateFileMapping\<close> and
  \<^verbatim>\<open>MapViewOfFile\<close> (0 on failure), and the \<^verbatim>\<open>DWORD\<close> of \<^verbatim>\<open>GetFileSize\<close>.
\<close>

record win_outcome =
  CreateFile_returns :: HANDLE
  CreateFileMapping_returns :: HANDLE
  MapViewOfFile_returns :: addr
  GetFileSize_returns :: "32 word"

definition CreateFile :: "win_outcome \<Rightarrow> win_os \<Rightarrow> string \<Rightarrow> HANDLE \<times> win_os" where
  "CreateFile out os path =
     (let h = CreateFile_returns out
      in if h = INVALID_HANDLE_VALUE then (h, os)
         else (h, os\<lparr>open_handles := insert h (open_handles os)\<rparr>))"

definition CreateFileMapping :: "win_outcome \<Rightarrow> win_os \<Rightarrow> HANDLE \<Rightarrow> HANDLE \<times> win_os" where
  "CreateFileMapping out os file =
     (let h = CreateFileMapping_returns out
      in if h = 0 then (h, os)
         else (h, os\<lparr>open_handles := insert h (open_handles os)\<rparr>))"

definition MapViewOfFile :: "win_outcome \<Rightarrow> win_os \<Rightarrow> HANDLE \<Rightarrow> addr \<times> win_os" where
  "MapViewOfFile out os mapping =
     (let a = MapViewOfFile_returns out
      in if a = 0 then (a, os) else (a, os\<lparr>views := insert a (views os)\<rparr>))"

definition CloseHandle :: "win_os \<Rightarrow> HANDLE \<Rightarrow> win_os" where
  "CloseHandle os h =
     os\<lparr>open_handles := open_handles os - {h}, win_log := win_log os @ [CloseHandle_call h]\<rparr>"





text \<open>\<^verbatim>\<open>MemoryMappedFile_init\<close>, Windows branch.\<close>

definition MemoryMappedFile_init_win ::
  "win_outcome \<Rightarrow> MemoryMappedFile_win \<Rightarrow> string option \<Rightarrow> win_os
    \<Rightarrow> (py_error + unit) \<times> MemoryMappedFile_win \<times> win_os" where
  "MemoryMappedFile_init_win out self args os =
     (case args of
        None \<Rightarrow> (Inl ArgumentError, self, os)
      | Some path \<Rightarrow>
          (let (h, os) = CreateFile out os path;
               self = self\<lparr>file_handle := h\<rparr>
           in if file_handle self = INVALID_HANDLE_VALUE
              then (Inl (RuntimeError ''Couldn't map the file!''), self, os)
              else
                (let (m, os) = CreateFileMapping out os (file_handle self);
                     self = self\<lparr>mapping_handle := m\<rparr>
                 in if mapping_handle self = 0
                    then (Inl (RuntimeError ''Couldn't map the file!''),
                          self\<lparr>file_handle := 0\<rparr>, CloseHandle os (file_handle self))
                    else
                      (let (file, os) = MapViewOfFile out os (mapping_handle self)
                       in if file = 0
                          then (Inl (RuntimeError ''Couldn't map the file!''),
                                self\<lparr>mapping_handle := 0, file_handle := 0\<rparr>,
                                CloseHandle (CloseHandle os (mapping_handle self)) (file_handle self))
                          else (Inr (),
                                self\<lparr>start_win := file, length_win := ucast (GetFileSize_returns out)\<rparr>,
                                os)))))"

section \<open>Str\<close>

text \<open>Pointer plus a signed offset (\<^verbatim>\<open>self->start + i\<close> with \<^verbatim>\<open>i\<close> a \<^verbatim>\<open>Py_ssize_t\<close>).\<close>

definition ptr_add :: "addr \<Rightarrow> int \<Rightarrow> addr" where
  "ptr_add p k = nat (int p + k)"

text \<open>\<^verbatim>\<open>Str_new\<close>: the fields of a fresh object.\<close>

definition Str_new :: Str where
  "Str_new = \<lparr>parent = None, start_str = 0, length_str = 0\<rparr>"

text \<open>
  \<^verbatim>\<open>Str_init\<close>. \<open>args\<close> is what \<^verbatim>\<open>PyArg_ParseTuple(..., "|Onn", &parent, &from, &to)\<close>
  extracts (\<open>None\<close> when it fails): the parent, as its identity and the object there, and
  the two bounds, each absent or given. The result is the updated \<open>self\<close> and the
  reference counts. With no parent the source leaves \<^verbatim>\<open>self->parent\<close> as it is.
\<close>

definition Str_init ::
  "Str \<Rightarrow> ((ref \<times> pyobject) option \<times> ssize_t option \<times> ssize_t option) option \<Rightarrow> refcounts
    \<Rightarrow> py_error + Str \<times> refcounts" where
  "Str_init self args rc =
     (case args of
        None \<Rightarrow> Inl ArgumentError
      | Some (parent_arg, from_arg, to_arg) \<Rightarrow>
          (let from = (case from_arg of None \<Rightarrow> 0 | Some v \<Rightarrow> v);
               to = (case to_arg of None \<Rightarrow> PY_SSIZE_T_MAX | Some v \<Rightarrow> v);
               exported =
                 (case parent_arg of
                    None \<Rightarrow> Some (self\<lparr>start_str := 0, length_str := 0\<rparr>, rc)
                  | Some (parent_ref, parent_obj) \<Rightarrow>
                      (case export_string_like parent_obj of
                         Some (p, n) \<Rightarrow>
                           Some (self\<lparr>start_str := p, length_str := n, parent := Some parent_ref\<rparr>,
                                 Py_INCREF rc parent_ref)
                       | None \<Rightarrow> None))
           in case exported of
                None \<Rightarrow> Inl (TypeError ''Unsupported parent type'')
              | Some (self, rc) \<Rightarrow>
                  (let (normalized_offset, normalized_length) = slice (length_str self) from to
                   in Inr (self\<lparr>start_str := start_str self + unat normalized_offset,
                                length_str := normalized_length\<rparr>, rc))))"

definition Str_len :: "Str \<Rightarrow> ssize_t" where
  "Str_len self = length_str self"

text \<open>
  \<^verbatim>\<open>PyUnicode_FromStringAndSize(u, 1)\<close> decodes one byte as UTF-8: an ASCII byte gives a
  one-character \<^verbatim>\<open>str\<close>, any other byte is not a complete sequence and raises
  \<^verbatim>\<open>UnicodeDecodeError\<close>.
\<close>

definition PyUnicode_FromStringAndSize1 :: "memory \<Rightarrow> addr \<Rightarrow> py_error + pyresult" where
  "PyUnicode_FromStringAndSize1 mem u =
     (if mem u < 0x80 then Inr (NewUnicode [mem u]) else Inl UnicodeDecodeError)"

text \<open>\<^verbatim>\<open>Str_getitem\<close>. The test \<^verbatim>\<open>(size_t)i >= self->length\<close> is the unsigned one.\<close>

definition Str_getitem :: "memory \<Rightarrow> Str \<Rightarrow> ssize_t \<Rightarrow> py_error + pyresult" where
  "Str_getitem mem self i =
     (let i = (if i <s 0 then i + length_str self else i)
      in if i <s 0 \<or> length_str self \<le> i then Inl (IndexError ''Index out of range'')
         else PyUnicode_FromStringAndSize1 mem (ptr_add (start_str self) (sint i)))"

text \<open>
  \<^verbatim>\<open>PySlice_Unpack\<close> and \<^verbatim>\<open>PySlice_AdjustIndices\<close> belong to CPython
  (\<^verbatim>\<open>Objects/sliceobject.c\<close>), not to this repository; they are written here as CPython
  defines them. \<open>SliceIndex\<close> clips a Python \<^verbatim>\<open>int\<close> to the range of \<^verbatim>\<open>Py_ssize_t\<close>.
  \<open>PySlice_AdjustIndices\<close> returns the adjusted \<^verbatim>\<open>start\<close> and \<^verbatim>\<open>stop\<close> and the slice
  length; it clamps each index on its own and does not order them.
\<close>

definition SliceIndex :: "int \<Rightarrow> ssize_t" where
  "SliceIndex v =
     (if 2 ^ 63 \<le> v then PY_SSIZE_T_MAX else if v < - (2 ^ 63) then PY_SSIZE_T_MIN
      else word_of_int v)"

definition PySlice_Unpack ::
  "int option \<Rightarrow> int option \<Rightarrow> int option \<Rightarrow> py_error + ssize_t \<times> ssize_t \<times> ssize_t" where
  "PySlice_Unpack start_obj stop_obj step_obj =
     (let step = (case step_obj of None \<Rightarrow> 1 | Some v \<Rightarrow> SliceIndex v)
      in if step = 0 then Inl (ValueError ''slice step cannot be zero'')
         else
           (let step = (if step <s - PY_SSIZE_T_MAX then - PY_SSIZE_T_MAX else step);
                start = (case start_obj of
                           None \<Rightarrow> (if step <s 0 then PY_SSIZE_T_MAX else 0)
                         | Some v \<Rightarrow> SliceIndex v);
                stop = (case stop_obj of
                          None \<Rightarrow> (if step <s 0 then PY_SSIZE_T_MIN else PY_SSIZE_T_MAX)
                        | Some v \<Rightarrow> SliceIndex v)
            in Inr (start, stop, step)))"

definition PySlice_AdjustIndices ::
  "ssize_t \<Rightarrow> ssize_t \<Rightarrow> ssize_t \<Rightarrow> ssize_t \<Rightarrow> ssize_t \<times> ssize_t \<times> ssize_t" where
  "PySlice_AdjustIndices len start stop step =
     (let start =
            (if start <s 0
             then (let start = start + len
                   in if start <s 0 then (if step <s 0 then - 1 else 0) else start)
             else if len \<le>s start then (if step <s 0 then len - 1 else len)
             else start);
          stop =
            (if stop <s 0
             then (let stop = stop + len
                   in if stop <s 0 then (if step <s 0 then - 1 else 0) else stop)
             else if len \<le>s stop then (if step <s 0 then len - 1 else len)
             else stop);
          slicelength =
            (if step <s 0
             then (if stop <s start
                   then word_of_int (sint (start - stop - 1) sdiv sint (- step)) + 1 else 0)
             else (if start <s stop
                   then word_of_int (sint (stop - start - 1) sdiv sint step) + 1 else 0))
      in (start, stop, slicelength))"

text \<open>
  \<^verbatim>\<open>Str_subscript\<close>. \<open>self_ref\<close> is the identity of \<open>self\<close>, stored as the parent of the
  new object. The length of the new object is \<^verbatim>\<open>stop - start\<close>, converted to \<^verbatim>\<open>size_t\<close>;
  the slice length that \<^verbatim>\<open>PySlice_AdjustIndices\<close> returns is only tested for \<open>< 0\<close>.
  \<open>Inr (r, rc, pending)\<close> is the object returned, the reference counts, and the exception
  that the unchecked conversion of an \<^verbatim>\<open>int\<close> key left set, if any.
\<close>

definition Str_subscript ::
  "memory \<Rightarrow> ref \<Rightarrow> Str \<Rightarrow> pyobject \<Rightarrow> refcounts
    \<Rightarrow> py_error + pyresult \<times> refcounts \<times> py_error option" where
  "Str_subscript mem self_ref self key rc =
     (case key of
        PySlice start_obj stop_obj step_obj \<Rightarrow>
          (case PySlice_Unpack start_obj stop_obj step_obj of
             Inl e \<Rightarrow> Inl e
           | Inr (start, stop, step) \<Rightarrow>
               (let (start, stop, slicelength) =
                      PySlice_AdjustIndices (length_str self) start stop step
                in if slicelength <s 0 then Inl SystemError
                   else if step \<noteq> 1 then Inl (IndexError ''Efficient step is not supported'')
                   else Inr (NewStr \<lparr>parent = Some self_ref,
                                      start_str = ptr_add (start_str self) (sint start),
                                      length_str = stop - start\<rparr>,
                             Py_INCREF rc self_ref, None)))
      | PyLong v \<Rightarrow>
          (let (i, i_error) = PyLong_AsSsize_t key
           in case Str_getitem mem self i of
                Inl e \<Rightarrow> Inl e
              | Inr r \<Rightarrow> Inr (r, rc, i_error))
      | _ \<Rightarrow> Inl (TypeError ''Str indices must be integers or slices''))"

text \<open>
  \<^verbatim>\<open>Str_contains\<close>: \<open>Inr True\<close> and \<open>Inr False\<close> are the return values 1 and 0,
  \<open>Inl e\<close> is \<open>-1\<close> with \<open>e\<close> set.
\<close>

definition Str_contains :: "find_kernel \<Rightarrow> memory \<Rightarrow> Str \<Rightarrow> pyobject \<Rightarrow> py_error + bool" where
  "Str_contains strzl_find mem self arg =
     (case export_string_like arg of
        None \<Rightarrow> Inl (TypeError ''Unsupported argument type'')
      | Some needle_struct \<Rightarrow>
          (let haystack = (start_str self, length_str self);
               position = strzl_find mem haystack needle_struct
           in Inr (position \<noteq> snd haystack)))"

text \<open>\<^verbatim>\<open>Str_hash\<close>: the 32-bit checksum, widened to \<^verbatim>\<open>Py_hash_t\<close>.\<close>

definition Str_hash :: "hash_kernel \<Rightarrow> memory \<Rightarrow> Str \<Rightarrow> ssize_t" where
  "Str_hash strzl_hash mem self = ucast (strzl_hash mem (start_str self) (length_str self))"

text \<open>
  \<^verbatim>\<open>Str_getslice\<close>. \<open>args\<close> is what \<^verbatim>\<open>PyArg_ParseTuple(args, "|OO", ...)\<close> extracts
  (\<open>None\<close> when it fails): each of the two objects absent or given. \<open>Inr (r, rc, pending)\<close>
  is the object returned, the reference counts, and the exception that the unchecked
  conversions of the bounds left set, if any. No table in the source refers to this
  function.
\<close>

definition Str_getslice ::
  "ref \<Rightarrow> Str \<Rightarrow> (pyobject option \<times> pyobject option) option \<Rightarrow> refcounts
    \<Rightarrow> py_error + pyresult \<times> refcounts \<times> py_error option" where
  "Str_getslice self_ref self args rc =
     (case args of
        None \<Rightarrow> Inl ArgumentError
      | Some (start_obj, end_obj) \<Rightarrow>
          if start_obj \<noteq> None \<and> start_obj \<noteq> Some PyNone \<and> \<not> PyLong_Check (the start_obj)
          then Inl (TypeError ''Start index must be an integer or None'')
          else if end_obj \<noteq> None \<and> end_obj \<noteq> Some PyNone \<and> \<not> PyLong_Check (the end_obj)
          then Inl (TypeError ''End index must be an integer or None'')
          else
            (let (start, start_error) =
                   (if start_obj \<noteq> None \<and> start_obj \<noteq> Some PyNone
                    then PyLong_AsSsize_t (the start_obj) else (0, None));
                 (end, end_error) =
                   (if end_obj \<noteq> None \<and> end_obj \<noteq> Some PyNone
                    then PyLong_AsSsize_t (the end_obj) else (length_str self, None));
                 pending = pending_after start_error end_error;
                 (normalized_offset, normalized_length) = slice (length_str self) start end
             in if normalized_length = 0 then Inr (NewUnicode [], rc, pending)
                else Inr (NewStr \<lparr>parent = Some self_ref,
                                   start_str = start_str self + unat normalized_offset,
                                   length_str = normalized_length\<rparr>,
                          Py_INCREF rc self_ref, pending)))"

text \<open>
  \<^verbatim>\<open>memcmp\<close> over \<open>n\<close> bytes: 0 when they agree, otherwise the difference of the first
  two bytes that differ, read as \<^verbatim>\<open>unsigned char\<close>. The C standard fixes only the sign
  of the result, and the source reads only the sign.
\<close>

fun memcmp :: "memory \<Rightarrow> addr \<Rightarrow> addr \<Rightarrow> nat \<Rightarrow> int" where
  "memcmp mem a b 0 = 0"
| "memcmp mem a b (Suc n) =
     (if mem a = mem b then memcmp mem (Suc a) (Suc b) n else uint (mem a) - uint (mem b))"

definition Py_LT :: int where "Py_LT = 0"
definition Py_LE :: int where "Py_LE = 1"
definition Py_EQ :: int where "Py_EQ = 2"
definition Py_NE :: int where "Py_NE = 3"
definition Py_GT :: int where "Py_GT = 4"
definition Py_GE :: int where "Py_GE = 5"

text \<open>\<^verbatim>\<open>Str_richcompare\<close>. No path of it sets an exception.\<close>

definition Str_richcompare :: "memory \<Rightarrow> pyobject \<Rightarrow> pyobject \<Rightarrow> int \<Rightarrow> pyresult" where
  "Str_richcompare mem self other op =
     (case export_string_like self of
        None \<Rightarrow> NotImplemented
      | Some (a_start, a_length) \<Rightarrow>
          (case export_string_like other of
             None \<Rightarrow> NotImplemented
           | Some (b_start, b_length) \<Rightarrow>
               (let min_length = (if a_length < b_length then a_length else b_length);
                    cmp_result = memcmp mem a_start b_start (unat min_length);
                    cmp_result =
                      (if cmp_result = 0
                       then (if a_length > b_length then 1 else 0)
                            - (if a_length < b_length then 1 else 0)
                       else cmp_result)
                in if op = Py_LT then NewBool (cmp_result < 0)
                   else if op = Py_LE then NewBool (cmp_result \<le> 0)
                   else if op = Py_EQ then NewBool (cmp_result = 0)
                   else if op = Py_NE then NewBool (cmp_result \<noteq> 0)
                   else if op = Py_GT then NewBool (cmp_result > 0)
                   else if op = Py_GE then NewBool (cmp_result \<ge> 0)
                   else NotImplemented)))"

section \<open>Example data\<close>

text \<open>
  A memory that holds the bytes \<open>xs\<close> from address \<open>base\<close> on and is \<open>mem\<close> elsewhere.
  \<open>example_memory\<close> has \<^verbatim>\<open>"abracadabra"\<close> at address 100 and again at address 300, and
  \<^verbatim>\<open>"cad"\<close> at address 200.
\<close>

definition store_bytes :: "memory \<Rightarrow> addr \<Rightarrow> byte list \<Rightarrow> memory" where
  "store_bytes mem base xs a =
     (if base \<le> a \<and> a < base + length xs then xs ! (a - base) else mem a)"

definition zero_memory :: memory where
  "zero_memory a = 0"

definition abracadabra :: "byte list" where
  "abracadabra = [0x61, 0x62, 0x72, 0x61, 0x63, 0x61, 0x64, 0x61, 0x62, 0x72, 0x61]"

definition example_memory :: memory where
  "example_memory =
     store_bytes (store_bytes (store_bytes zero_memory 100 abracadabra) 200 [0x63, 0x61, 0x64])
       300 abracadabra"

definition one_reference :: refcounts where
  "one_reference r = 1"

definition example_os :: posix_os where
  "example_os = \<lparr>open_fds = {0, 1, 2}, mappings = {}, release_log = []\<rparr>"

definition example_win_os :: win_os where
  "example_win_os = \<lparr>open_handles = {}, views = {}, win_log = []\<rparr>"









definition stdin_closed_os :: posix_os where
  "stdin_closed_os = \<lparr>open_fds = {1, 2}, mappings = {}, release_log = []\<rparr>"

definition open_returns_zero :: posix_outcome where
  "open_returns_zero = \<lparr>open_returns = 0, fstat_size = Some 11, mmap_returns = Some 4096\<rparr>"

text \<open>The byte range \<open>(p, n)\<close> lies within the byte range \<open>(q, m)\<close>.\<close>

definition sub_range :: "addr \<times> size_t \<Rightarrow> addr \<times> size_t \<Rightarrow> bool" where
  "sub_range inner outer =
     (fst outer \<le> fst inner \<and> fst inner + unat (snd inner) \<le> fst outer + unat (snd outer))"

text \<open>
  Answers of the system calls for three failing attempts on POSIX and one on Windows, the
  fields of a fresh Windows object, and a 10-byte view at address 100.
\<close>

definition open_fails :: posix_outcome where
  "open_fails = \<lparr>open_returns = - 1, fstat_size = Some 11, mmap_returns = Some 4096\<rparr>"

definition fstat_fails :: posix_outcome where
  "fstat_fails = \<lparr>open_returns = 3, fstat_size = None, mmap_returns = Some 4096\<rparr>"

definition mmap_fails :: posix_outcome where
  "mmap_fails = \<lparr>open_returns = 3, fstat_size = Some 11, mmap_returns = None\<rparr>"

definition view_fails :: win_outcome where
  "view_fails = \<lparr>CreateFile_returns = 5, CreateFileMapping_returns = 6,
     MapViewOfFile_returns = 0, GetFileSize_returns = 11\<rparr>"

definition MemoryMappedFile_win_new :: MemoryMappedFile_win where
  "MemoryMappedFile_win_new =
     \<lparr>file_handle = 0, mapping_handle = 0, start_win = 0, length_win = 0\<rparr>"

definition ten_bytes :: Str where
  "ten_bytes = \<lparr>parent = None, start_str = 100, length_str = 10\<rparr>"

section \<open>Properties of the slice normalizer\<close>

lemma sint_add_neg:
  fixes s len :: "64 word"
  assumes "sint s < 0" "0 \<le> sint len"
  shows "sint (s + len) = sint s + sint len"
proof -
  have "- (2 ^ 63) \<le> sint s" using sint_ge [of s] by simp
  moreover have "sint len < 2 ^ 63" using sint_lt [of len] by simp
  ultimately have "- (2 ^ 63) \<le> sint s + sint len" "sint s + sint len < 2 ^ 63"
    using assms by simp_all
  then show ?thesis
    by (simp add: sint_word_ariths signed_take_bit_int_eq_self)
qed

lemma uint_of_nonneg_sint:
  fixes w :: "64 word"
  assumes "0 \<le> sint w"
  shows "uint w = sint w"
proof -
  have "sint w < 2 ^ 64" using sint_lt [of w] by simp
  with assms show ?thesis
    by (simp add: uint_sint take_bit_int_eq_self)
qed

lemma sint_of_small_uint:
  fixes w :: "64 word"
  assumes "uint w < 2 ^ 63"
  shows "sint w = uint w"
proof -
  have "- (2 ^ 63) \<le> uint w"
    by (rule order_trans [of _ 0]) simp_all
  with assms show ?thesis
    by (simp add: sint_uint signed_take_bit_int_eq_self)
qed

lemma sint_sub_nonneg:
  fixes a b :: "64 word"
  assumes "0 \<le> sint a" "sint a \<le> sint b"
  shows "sint (b - a) = sint b - sint a"
proof -
  have "sint b < 2 ^ 63" using sint_lt [of b] by simp
  with assms have "- (2 ^ 63) \<le> sint b - sint a" "sint b - sint a < 2 ^ 63"
    by simp_all
  then show ?thesis
    by (simp add: sint_word_ariths signed_take_bit_int_eq_self)
qed

lemma sint_sub_in_range:
  fixes a b :: "64 word"
  assumes "- (2 ^ 63) \<le> sint a - sint b" "sint a - sint b < 2 ^ 63"
  shows "sint (a - b) = sint a - sint b"
  using assms by (simp add: sint_word_ariths signed_take_bit_int_eq_self)

lemma sint_normalize_index:
  fixes len i :: "64 word"
  assumes "0 \<le> sint len"
  shows "sint (if i <s 0 then i + len else i) = (if sint i < 0 then sint i + sint len else sint i)"
  using assms by (simp add: word_sless_alt sint_add_neg)

text \<open>
  When \<open>length\<close> fits \<^verbatim>\<open>ssize_t\<close>, no step of \<open>slice\<close> wraps and the machine
  computation is the integer one.
\<close>

lemma slice_refines_spec:
  fixes len s e :: "64 word"
  assumes len: "0 \<le> sint len" and res: "slice len s e = (off, n)"
  shows "(sint off, sint n) = slice_spec (sint len) (sint s) (sint e)"
proof -
  define s1 where "s1 = (if s <s 0 then s + len else s)"
  define e1 where "e1 = (if e <s 0 then e + len else e)"
  define s3 where
    "s3 = (if len <s (if s1 <s 0 then 0 else s1) then len else (if s1 <s 0 then 0 else s1))"
  define e3 where
    "e3 = (if len <s (if e1 <s 0 then 0 else e1) then len else (if e1 <s 0 then 0 else e1))"
  define s4 where "s4 = (if e3 <s s3 then e3 else s3)"
  have s1: "sint s1 = (if sint s < 0 then sint s + sint len else sint s)"
    unfolding s1_def using len by (rule sint_normalize_index)
  have e1: "sint e1 = (if sint e < 0 then sint e + sint len else sint e)"
    unfolding e1_def using len by (rule sint_normalize_index)
  have s3: "sint s3 = max 0 (min (sint len) (sint s1))"
    unfolding s3_def using len by (simp add: word_sless_alt max_def min_def)
  have e3: "sint e3 = max 0 (min (sint len) (sint e1))"
    unfolding e3_def using len by (simp add: word_sless_alt max_def min_def)
  have s4: "sint s4 = (if sint s3 > sint e3 then sint e3 else sint s3)"
    unfolding s4_def by (simp add: word_sless_alt)
  have "0 \<le> sint s4" "sint s4 \<le> sint e3"
    using s3 e3 s4 len by (auto simp add: max_def min_def split: if_splits)
  then have n: "sint (e3 - s4) = sint e3 - sint s4"
    by (rule sint_sub_nonneg)
  have "slice len s e = (s4, e3 - s4)"
    unfolding slice_def Let_def s4_def s3_def e3_def s1_def e1_def by simp
  with res have "off = s4" "n = e3 - s4" by auto
  have spec: "slice_spec (sint len) (sint s) (sint e) = (sint s4, sint e3 - sint s4)"
    unfolding slice_spec_def Let_def
    by (simp only: s1 [symmetric] e1 [symmetric] s3 [symmetric] e3 [symmetric] s4 [symmetric])
  show ?thesis
    by (simp only: spec \<open>off = s4\<close> \<open>n = e3 - s4\<close> n)
qed

lemma slice_spec_bounds:
  assumes "0 \<le> len" "slice_spec len s e = (off, n)"
  shows "0 \<le> off \<and> 0 \<le> n \<and> off + n \<le> len"
  using assms by (auto simp add: slice_spec_def Let_def split: if_splits)

text \<open>
  A \<open>length\<close> above \<^verbatim>\<open>PY_SSIZE_T_MAX\<close> is negative once cast to \<^verbatim>\<open>ssize_t\<close>; both
  indices, non-negative after the first clamp, then exceed it and are set to \<open>length\<close>.
\<close>

lemma slice_huge_length:
  assumes "sint len < 0"
  shows "slice len s e = (len, 0)"
  using assms by (auto simp add: slice_def Let_def word_sless_alt)

lemma slice_in_range:
  fixes len s e :: "64 word"
  assumes "slice len s e = (off, n)"
  shows "unat off + unat n \<le> unat len"
proof (cases "0 \<le> sint len")
  case True
  from slice_refines_spec [OF True assms]
  have eq: "slice_spec (sint len) (sint s) (sint e) = (sint off, sint n)" by simp
  from slice_spec_bounds [OF True eq]
  have b: "0 \<le> sint off" "0 \<le> sint n" "sint off + sint n \<le> sint len" by simp_all
  have "uint off + uint n \<le> uint len"
    using b True by (simp add: uint_of_nonneg_sint)
  then have "int (unat off) + int (unat n) \<le> int (unat len)"
    by (simp only: uint_nat)
  then show ?thesis by linarith
next
  case False
  then have "slice len s e = (len, 0)" by (simp add: slice_huge_length)
  with assms show ?thesis by simp
qed

text \<open>
  Claim C1. For every length that is non-negative as a \<^verbatim>\<open>ssize_t\<close> and all signed
  \<open>start\<close> and \<open>end\<close>, \<open>slice\<close> returns \<open>(offset, normalized_length)\<close> with
  \<open>0 \<le> offset \<le> offset + normalized_length \<le> length\<close>, and the pair is the one obtained
  by adding \<open>length\<close> to each negative index, clamping both to \<open>[0, length]\<close> and forcing
  \<open>start = end\<close> when \<open>start > end\<close>. The function is total: it has no error result.
\<close>

theorem slice_normalizer_contract:
  fixes len start "end" :: "64 word"
  assumes "0 \<le>s len" and "slice len start end = (off, n)"
  shows "0 \<le> uint off \<and> uint off \<le> uint off + uint n \<and> uint off + uint n \<le> uint len
    \<and> (uint off, uint n) = slice_spec (uint len) (sint start) (sint end)"
proof -
  from assms(1) have len: "0 \<le> sint len" by (simp add: word_sle_eq)
  from slice_refines_spec [OF len assms(2)]
  have eq: "slice_spec (sint len) (sint start) (sint end) = (sint off, sint n)" by simp
  from slice_spec_bounds [OF len eq]
  have b: "0 \<le> sint off" "0 \<le> sint n" "sint off + sint n \<le> sint len" by simp_all
  have u: "uint off = sint off" "uint n = sint n" "uint len = sint len"
    using b len by (simp_all add: uint_of_nonneg_sint)
  show ?thesis using b eq by (simp add: u)
qed

theorem slice_normalizer_contract_witness:
  "(0::64 word) \<le>s 10 \<and> slice 10 5 2 = (2, 0)
    \<and> uint (2::64 word) + uint (0::64 word) \<le> uint (10::64 word)
    \<and> (uint (2::64 word), uint (0::64 word)) = slice_spec (uint (10::64 word)) (sint (5::64 word)) (sint (2::64 word))"
proof -
  have h1: "(0::64 word) \<le>s 10" by (simp add: word_sle_eq)
  have h2: "slice 10 5 2 = (2, 0)" by (simp add: slice_def word_sless_alt)
  show ?thesis using slice_normalizer_contract [OF h1 h2] h1 h2 by simp
qed

section \<open>Properties of the mapped file\<close>

lemma MemoryMappedFile_init_posix_cases:
  assumes "open_returns out \<notin> open_fds os"
    and "MemoryMappedFile_init out self (Some path) os = (r, self', os')"
  shows "(r = Inr ()) = (0 \<le> open_returns out \<and> fstat_size out \<noteq> None \<and> mmap_returns out \<noteq> None)"
    and "open_returns out < 0 \<or> fstat_size out = None
          \<longrightarrow> r = Inl (RuntimeError ''Can't retrieve file size!'')"
    and "0 \<le> open_returns out \<and> fstat_size out \<noteq> None \<and> mmap_returns out = None
          \<longrightarrow> r = Inl (RuntimeError ''Couldn't map the file!'')"
    and "r \<noteq> Inr () \<longrightarrow> open_fds os' = open_fds os \<and> mappings os' = mappings os
          \<and> file_descriptor self' = 0"
  using assms
  by (auto simp add: MemoryMappedFile_init_def sys_open_def sys_fstat_def sys_mmap_def
      sys_close_def Let_def split: if_splits option.splits prod.splits)

lemma MemoryMappedFile_init_win_cases:
  assumes "CreateFile_returns out \<notin> open_handles os"
    and "CreateFileMapping_returns out \<notin> open_handles os"
    and "MemoryMappedFile_init_win out self (Some path) os = (r, self', os')"
  shows "(r = Inr ()) = (CreateFile_returns out \<noteq> INVALID_HANDLE_VALUE
            \<and> CreateFileMapping_returns out \<noteq> 0 \<and> MapViewOfFile_returns out \<noteq> 0)"
    and "r \<noteq> Inr () \<longrightarrow> r = Inl (RuntimeError ''Couldn't map the file!'')
          \<and> open_handles os' = open_handles os \<and> views os' = views os"
  using assms
  by (auto simp add: MemoryMappedFile_init_win_def CreateFile_def CreateFileMapping_def
      MapViewOfFile_def CloseHandle_def Let_def split: if_splits prod.splits)

text \<open>
  Claim C2, as amended. \<open>MemoryMappedFile_init\<close> succeeds exactly when every system call
  does, and every failure is a \<^verbatim>\<open>RuntimeError\<close>: in the POSIX build with the message
  \<^verbatim>\<open>Can't retrieve file size!\<close> when the path cannot be opened or \<^verbatim>\<open>fstat\<close> fails and
  \<^verbatim>\<open>Couldn't map the file!\<close> when \<^verbatim>\<open>mmap\<close> fails, in the Windows build with
  \<^verbatim>\<open>Couldn't map the file!\<close> in all three cases. On every failure the open descriptors
  (handles) and the live mappings are those from before the call, and the POSIX descriptor
  field is 0. The descriptors and handles the calls return are fresh.
\<close>

theorem MemoryMappedFile_init_failure_rolls_back:
  assumes "open_returns out \<notin> open_fds os"
    and "MemoryMappedFile_init out self (Some path) os = (r, self', os')"
    and "CreateFile_returns wout \<notin> open_handles wos"
    and "CreateFileMapping_returns wout \<notin> open_handles wos"
    and "MemoryMappedFile_init_win wout w (Some wpath) wos = (wr, w', wos')"
  shows "(r = Inr ()) = (0 \<le> open_returns out \<and> fstat_size out \<noteq> None \<and> mmap_returns out \<noteq> None)
    \<and> (open_returns out < 0 \<or> fstat_size out = None
          \<longrightarrow> r = Inl (RuntimeError ''Can't retrieve file size!''))
    \<and> (0 \<le> open_returns out \<and> fstat_size out \<noteq> None \<and> mmap_returns out = None
          \<longrightarrow> r = Inl (RuntimeError ''Couldn't map the file!''))
    \<and> (r \<noteq> Inr () \<longrightarrow> open_fds os' = open_fds os \<and> mappings os' = mappings os
          \<and> file_descriptor self' = 0)
    \<and> (wr = Inr ()) = (CreateFile_returns wout \<noteq> INVALID_HANDLE_VALUE
            \<and> CreateFileMapping_returns wout \<noteq> 0 \<and> MapViewOfFile_returns wout \<noteq> 0)
    \<and> (wr \<noteq> Inr () \<longrightarrow> wr = Inl (RuntimeError ''Couldn't map the file!'')
          \<and> open_handles wos' = open_handles wos \<and> views wos' = views wos)"
  using MemoryMappedFile_init_posix_cases [OF assms(1,2)]
    MemoryMappedFile_init_win_cases [OF assms(3,4,5)]
  by blast

theorem MemoryMappedFile_init_failure_rolls_back_witness:
  "open_returns mmap_fails \<notin> open_fds example_os
   \<and> MemoryMappedFile_init mmap_fails MemoryMappedFile_new (Some ''present.txt'') example_os
     = (Inl (RuntimeError ''Couldn't map the file!''), MemoryMappedFile_new,
        \<lparr>open_fds = {0, 1, 2}, mappings = {}, release_log = [Close_call 3]\<rparr>)
   \<and> CreateFile_returns view_fails \<notin> open_handles example_win_os
   \<and> CreateFileMapping_returns view_fails \<notin> open_handles example_win_os
   \<and> MemoryMappedFile_init_win view_fails MemoryMappedFile_win_new (Some ''present.txt'') example_win_os
     = (Inl (RuntimeError ''Couldn't map the file!''), MemoryMappedFile_win_new,
        \<lparr>open_handles = {}, views = {}, win_log = [CloseHandle_call 6, CloseHandle_call 5]\<rparr>)
   \<and> open_fds \<lparr>open_fds = {0, 1, 2}, mappings = {}, release_log = [Close_call 3]\<rparr>
     = open_fds example_os
   \<and> open_returns open_fails \<notin> open_fds example_os
   \<and> MemoryMappedFile_init open_fails MemoryMappedFile_new (Some ''missing.txt'') example_os
     = (Inl (RuntimeError ''Can't retrieve file size!''), MemoryMappedFile_new,
        \<lparr>open_fds = {0, 1, 2}, mappings = {}, release_log = [Close_call (- 1)]\<rparr>)
   \<and> open_handles \<lparr>open_handles = {}, views = {},
        win_log = [CloseHandle_call 6, CloseHandle_call 5]\<rparr>
     = open_handles example_win_os"
proof -
  have h1: "open_returns mmap_fails \<notin> open_fds example_os"
    by (simp add: mmap_fails_def example_os_def)
  have h2: "MemoryMappedFile_init mmap_fails MemoryMappedFile_new (Some ''present.txt'') example_os
     = (Inl (RuntimeError ''Couldn't map the file!''), MemoryMappedFile_new,
        \<lparr>open_fds = {0, 1, 2}, mappings = {}, release_log = [Close_call 3]\<rparr>)"
    by (auto simp add: MemoryMappedFile_init_def mmap_fails_def example_os_def
        MemoryMappedFile_new_def sys_open_def sys_fstat_def sys_mmap_def sys_close_def Let_def)
  have h3: "CreateFile_returns view_fails \<notin> open_handles example_win_os"
    by (simp add: view_fails_def example_win_os_def)
  have h4: "CreateFileMapping_returns view_fails \<notin> open_handles example_win_os"
    by (simp add: view_fails_def example_win_os_def)
  have h5: "MemoryMappedFile_init_win view_fails MemoryMappedFile_win_new (Some ''present.txt'')
       example_win_os
     = (Inl (RuntimeError ''Couldn't map the file!''), MemoryMappedFile_win_new,
        \<lparr>open_handles = {}, views = {}, win_log = [CloseHandle_call 6, CloseHandle_call 5]\<rparr>)"
    by (auto simp add: MemoryMappedFile_init_win_def view_fails_def example_win_os_def
        MemoryMappedFile_win_new_def CreateFile_def CreateFileMapping_def MapViewOfFile_def
        CloseHandle_def INVALID_HANDLE_VALUE_def Let_def)
  have h6: "open_returns open_fails \<notin> open_fds example_os"
    by (simp add: open_fails_def example_os_def)
  have h7: "MemoryMappedFile_init open_fails MemoryMappedFile_new (Some ''missing.txt'') example_os
     = (Inl (RuntimeError ''Can't retrieve file size!''), MemoryMappedFile_new,
        \<lparr>open_fds = {0, 1, 2}, mappings = {}, release_log = [Close_call (- 1)]\<rparr>)"
    by (auto simp add: MemoryMappedFile_init_def open_fails_def example_os_def
        MemoryMappedFile_new_def sys_open_def sys_fstat_def sys_close_def Let_def)
  from MemoryMappedFile_init_failure_rolls_back [OF h1 h2 h3 h4 h5]
    MemoryMappedFile_init_failure_rolls_back [OF h6 h7 h3 h4 h5] h1 h2 h3 h4 h5 h6 h7
  show ?thesis by simp
qed

text \<open>
  Claim C2 as first stated fails: a path that cannot be opened and a size that cannot be
  determined give the same error; there is no separate error for a missing file.
\<close>

theorem MemoryMappedFile_init_open_failure_counterexample:
  "fst (MemoryMappedFile_init open_fails MemoryMappedFile_new (Some ''missing.txt'') example_os)
     = Inl (RuntimeError ''Can't retrieve file size!'')
   \<and> fst (MemoryMappedFile_init fstat_fails MemoryMappedFile_new (Some ''present.txt'') example_os)
     = Inl (RuntimeError ''Can't retrieve file size!'')"
  by (simp add: MemoryMappedFile_init_def open_fails_def fstat_fails_def example_os_def
      MemoryMappedFile_new_def sys_open_def sys_fstat_def Let_def)








text \<open>
  With standard input closed, \<^verbatim>\<open>open\<close> returns descriptor 0 and the file is mapped with the
  descriptor field at 0, the value the source takes for "no descriptor": the teardown
  unmaps the file and issues no \<^verbatim>\<open>close\<close>, and descriptor 0 stays open.
\<close>

lemma MemoryMappedFile_descriptor_zero_left_open:
  "MemoryMappedFile_init open_returns_zero MemoryMappedFile_new (Some ''present.txt'') stdin_closed_os
     = (Inr (), \<lparr>file_descriptor = 0, start_file = 4096, length_file = 11\<rparr>,
        \<lparr>open_fds = {0, 1, 2}, mappings = {(4096, 11)}, release_log = []\<rparr>)
   \<and> MemoryMappedFile_dealloc
        (Map.empty(1 \<mapsto> \<lparr>file_descriptor = 0, start_file = 4096, length_file = 11\<rparr>)) 1
        \<lparr>open_fds = {0, 1, 2}, mappings = {(4096, 11)}, release_log = []\<rparr>
     = Inr (Map.empty,
        \<lparr>open_fds = {0, 1, 2}, mappings = {},
         release_log = [Munmap_call 4096 11, Tp_free_call MemoryMappedFile_new]\<rparr>)"
proof -
  have "MemoryMappedFile_init open_returns_zero MemoryMappedFile_new (Some ''present.txt'')
      stdin_closed_os
     = (Inr (), \<lparr>file_descriptor = 0, start_file = 4096, length_file = 11\<rparr>,
        \<lparr>open_fds = {0, 1, 2}, mappings = {(4096, 11)}, release_log = []\<rparr>)"
    by (auto simp add: MemoryMappedFile_init_def open_returns_zero_def stdin_closed_os_def
        MemoryMappedFile_new_def sys_open_def sys_fstat_def sys_mmap_def Let_def)
  moreover have "MemoryMappedFile_dealloc
        (Map.empty(1 \<mapsto> \<lparr>file_descriptor = 0, start_file = 4096, length_file = 11\<rparr>)) 1
        \<lparr>open_fds = {0, 1, 2}, mappings = {(4096, 11)}, release_log = []\<rparr>
     = Inr (Map.empty,
        \<lparr>open_fds = {0, 1, 2}, mappings = {},
         release_log = [Munmap_call 4096 11, Tp_free_call MemoryMappedFile_new]\<rparr>)"
    by (auto simp add: MemoryMappedFile_dealloc_def MemoryMappedFile_new_def sys_munmap_def
        tp_free_def)
  ultimately show ?thesis by (simp only: simp_thms)
qed

section \<open>Properties of the views\<close>

subsection \<open>Slicing\<close>

lemma adjust_index_forward:
  fixes len i :: "64 word"
  assumes "0 \<le> sint len"
  defines "j \<equiv> (if i <s 0
             then (let i = i + len in if i <s 0 then (if (1 :: 64 word) <s 0 then - 1 else 0) else i)
             else if len \<le>s i then (if (1 :: 64 word) <s 0 then len - 1 else len)
             else i)"
  shows "0 \<le> sint j \<and> sint j \<le> sint len"
proof -
  have one: "\<not> (1 :: 64 word) <s 0" by (simp add: word_sless_alt)
  show ?thesis
  proof (cases "i <s 0")
    case True
    then have "sint (i + len) = sint i + sint len"
      using assms(1) by (simp add: word_sless_alt sint_add_neg)
    with True assms(1) show ?thesis
      by (auto simp add: j_def Let_def one word_sless_alt)
  next
    case False
    with assms(1) show ?thesis
      by (auto simp add: j_def one word_sless_alt word_sle_eq)
  qed
qed

lemma PySlice_AdjustIndices_forward:
  fixes len :: "64 word"
  assumes len: "0 \<le> sint len"
    and adj: "PySlice_AdjustIndices len s0 e0 1 = (s, e, k)"
  shows "0 \<le> sint s \<and> sint s \<le> sint len \<and> 0 \<le> sint e \<and> sint e \<le> sint len
    \<and> k = (if s <s e then word_of_int (sint (e - s - 1) sdiv sint (1 :: 64 word)) + 1 else 0)"
proof -
  from adj have s: "s = (if s0 <s 0
             then (let i = s0 + len in if i <s 0 then (if (1 :: 64 word) <s 0 then - 1 else 0) else i)
             else if len \<le>s s0 then (if (1 :: 64 word) <s 0 then len - 1 else len)
             else s0)"
    and e: "e = (if e0 <s 0
             then (let i = e0 + len in if i <s 0 then (if (1 :: 64 word) <s 0 then - 1 else 0) else i)
             else if len \<le>s e0 then (if (1 :: 64 word) <s 0 then len - 1 else len)
             else e0)"
    by (simp_all add: PySlice_AdjustIndices_def Let_def)
  have one: "\<not> (1 :: 64 word) <s 0" by (simp add: word_sless_alt)
  from adj have k: "k = (if s <s e then word_of_int (sint (e - s - 1) sdiv sint (1 :: 64 word)) + 1 else 0)"
    unfolding PySlice_AdjustIndices_def Let_def s e by (simp add: one)
  show ?thesis
    using adjust_index_forward [OF len, of s0] adjust_index_forward [OF len, of e0] k
    unfolding s e by blast
qed

lemma slicelength_forward:
  fixes s e :: "64 word"
  assumes "0 \<le> sint s" "sint s \<le> sint e"
  shows "\<not> (if s <s e then word_of_int (sint (e - s - 1) sdiv sint (1 :: 64 word)) + 1 else 0) <s (0 :: 64 word)"
proof (cases "s <s e")
  case True
  have "sint (e - s - 1) sdiv sint (1 :: 64 word) = sint (e - s - 1)"
    by (simp add: signed_divide_int_def sgn_mult_abs)
  then have "word_of_int (sint (e - s - 1) sdiv sint (1 :: 64 word)) + 1 = e - s"
    by simp
  moreover have "sint (e - s) = sint e - sint s"
    using assms by (rule sint_sub_nonneg)
  ultimately show ?thesis using True assms by (simp add: word_sless_alt)
next
  case False
  then show ?thesis by (simp add: word_sless_alt)
qed

lemma ptr_add_nonneg:
  fixes s :: "64 word"
  assumes "0 \<le> sint s"
  shows "ptr_add p (sint s) = p + unat s"
proof -
  have "sint s = uint s" using uint_of_nonneg_sint [OF assms] by simp
  also have "\<dots> = int (unat s)" by (rule uint_nat)
  finally have "sint s = int (unat s)" .
  then show ?thesis by (simp only: ptr_add_def nat_int_add)
qed

lemma Str_subscript_in_order:
  assumes len: "0 \<le>s length_str self"
    and unpack: "PySlice_Unpack start_obj stop_obj step_obj = Inr (s0, e0, 1)"
    and adj: "PySlice_AdjustIndices (length_str self) s0 e0 1 = (s, e, k)"
    and ordered: "s \<le>s e"
  shows "Str_subscript mem self_ref self (PySlice start_obj stop_obj step_obj) rc
      = Inr (NewStr \<lparr>parent = Some self_ref, start_str = start_str self + unat s,
                       length_str = e - s\<rparr>,
             Py_INCREF rc self_ref, None)
    \<and> unat s + unat (e - s) \<le> unat (length_str self)"
proof -
  from len have l: "0 \<le> sint (length_str self)" by (simp add: word_sle_eq)
  from PySlice_AdjustIndices_forward [OF l adj]
  have b: "0 \<le> sint s" "sint s \<le> sint (length_str self)" "0 \<le> sint e"
      "sint e \<le> sint (length_str self)"
    and k: "k = (if s <s e then word_of_int (sint (e - s - 1) sdiv sint (1 :: 64 word)) + 1 else 0)"
    by blast+
  from ordered have o: "sint s \<le> sint e" by (simp add: word_sle_eq)
  have nonneg: "\<not> k <s 0" unfolding k using b(1) o by (rule slicelength_forward)
  have run: "Str_subscript mem self_ref self (PySlice start_obj stop_obj step_obj) rc
      = Inr (NewStr \<lparr>parent = Some self_ref, start_str = start_str self + unat s,
                       length_str = e - s\<rparr>,
             Py_INCREF rc self_ref, None)"
    by (simp add: Str_subscript_def unpack adj nonneg ptr_add_nonneg [OF b(1)])
  have d: "sint (e - s) = sint e - sint s" using b(1) o by (rule sint_sub_nonneg)
  then have "0 \<le> sint (e - s)" using o by simp
  then have "uint (e - s) = sint e - sint s" using d by (simp add: uint_of_nonneg_sint)
  moreover have "uint s = sint s" "uint (length_str self) = sint (length_str self)"
    using b(1) l by (simp_all add: uint_of_nonneg_sint)
  ultimately have "uint s + uint (e - s) \<le> uint (length_str self)" using b(4) by simp
  then have "int (unat s) + int (unat (e - s)) \<le> int (unat (length_str self))"
    by (simp only: uint_nat)
  then have "unat s + unat (e - s) \<le> unat (length_str self)" by linarith
  with run show ?thesis by blast
qed

text \<open>
  Claim C3 fails on \<open>Str_subscript\<close>, the function behind \<^verbatim>\<open>v[from:to]\<close>, which takes
  \<^verbatim>\<open>stop - start\<close> of the separately clamped bounds as the length. On a 10-byte view the
  key \<^verbatim>\<open>slice(5, 2)\<close> gives a view whose length field is \<open>2 ^ 64 - 3\<close>, which \<open>Str_len\<close>
  reports as \<open>-3\<close>, not the empty view. For a key of step 1
  whose adjusted start does not exceed its adjusted stop the claim holds
  (\<open>Str_subscript_in_order\<close>): the new view has the sliced view as parent, lies inside its
  range, and one reference is taken.
\<close>

theorem Str_subscript_out_of_order_not_empty:
  "Str_subscript example_memory 7 ten_bytes (PySlice (Some 5) (Some 2) None) one_reference
     = Inr (NewStr \<lparr>parent = Some 7, start_str = 105, length_str = 18446744073709551613\<rparr>,
            Py_INCREF one_reference 7, None)
   \<and> Str_len \<lparr>parent = Some 7, start_str = 105, length_str = 18446744073709551613\<rparr> \<noteq> 0
   \<and> sint (Str_len \<lparr>parent = Some 7, start_str = 105, length_str = 18446744073709551613\<rparr>) = - 3"
  by (simp add: Str_subscript_def ten_bytes_def PySlice_Unpack_def SliceIndex_def
      PySlice_AdjustIndices_def PY_SSIZE_T_MAX_def PY_SSIZE_T_MIN_def word_sless_alt word_sle_eq
      ptr_add_def Str_len_def Let_def)

lemma Str_init_sub_range:
  assumes "Str_init self (Some (Some (parent_ref, parent_obj), from_arg, to_arg)) rc = Inr (self', rc')"
    and "export_string_like parent_obj = Some exported"
  shows "sub_range (start_str self', length_str self') exported
    \<and> parent self' = Some parent_ref \<and> rc' = Py_INCREF rc parent_ref"
proof -
  obtain p n where e: "exported = (p, n)" by (cases exported)
  obtain off m where s: "slice n (case from_arg of None \<Rightarrow> 0 | Some v \<Rightarrow> v)
      (case to_arg of None \<Rightarrow> PY_SSIZE_T_MAX | Some v \<Rightarrow> v) = (off, m)"
    by (cases "slice n (case from_arg of None \<Rightarrow> 0 | Some v \<Rightarrow> v)
      (case to_arg of None \<Rightarrow> PY_SSIZE_T_MAX | Some v \<Rightarrow> v)")
  from s have "unat off + unat m \<le> unat n" by (rule slice_in_range)
  with assms e s show ?thesis
    by (auto simp add: Str_init_def Let_def sub_range_def)
qed

lemma Str_getslice_view_from_slice:
  assumes "Str_getslice self_ref self args rc = Inr (NewStr v, rc', pending)"
  shows "\<exists>s e off n. slice (length_str self) s e = (off, n)
    \<and> v = \<lparr>parent = Some self_ref, start_str = start_str self + unat off, length_str = n\<rparr>"
proof (cases args)
  case None
  with assms show ?thesis by (simp add: Str_getslice_def)
next
  case (Some a)
  with assms show ?thesis
    by (cases a) (auto simp add: Str_getslice_def Let_def split: if_splits prod.splits)
qed

lemma Str_getslice_sub_range:
  assumes "Str_getslice self_ref self args rc = Inr (NewStr v, rc', pending)"
  shows "sub_range (start_str v, length_str v) (start_str self, length_str self)
    \<and> parent v = Some self_ref"
proof -
  from Str_getslice_view_from_slice [OF assms]
  obtain s e off n where sl: "slice (length_str self) s e = (off, n)"
    and v: "v = \<lparr>parent = Some self_ref, start_str = start_str self + unat off, length_str = n\<rparr>"
    by blast
  from sl have "unat off + unat n \<le> unat (length_str self)" by (rule slice_in_range)
  with v show ?thesis by (simp add: sub_range_def)
qed

text \<open>
  Claim C7 fails on \<open>Str_subscript\<close>. On a 10-byte view at address 100 the key
  \<^verbatim>\<open>slice(5, 2)\<close> is adjusted to start 5 and stop 2; the new view starts at 105 and its
  length is \<open>2 - 5\<close> as a \<^verbatim>\<open>size_t\<close>, that is \<open>2 ^ 64 - 3\<close>, which is not inside the
  parent's range. \<open>Str_init\<close> and \<open>Str_getslice\<close> go through \<open>slice\<close> and stay inside
  (\<open>Str_init_sub_range\<close>, \<open>Str_getslice_sub_range\<close>).
\<close>

theorem Str_subscript_out_of_order_escapes:
  "Str_subscript example_memory 7 ten_bytes (PySlice (Some 5) (Some 2) None) one_reference
     = Inr (NewStr \<lparr>parent = Some 7, start_str = 105, length_str = 18446744073709551613\<rparr>,
            Py_INCREF one_reference 7, None)
   \<and> \<not> sub_range (105, 18446744073709551613) (start_str ten_bytes, length_str ten_bytes)"
  by (simp add: Str_subscript_def ten_bytes_def PySlice_Unpack_def SliceIndex_def
      PySlice_AdjustIndices_def PY_SSIZE_T_MAX_def PY_SSIZE_T_MIN_def word_sless_alt word_sle_eq
      ptr_add_def sub_range_def Let_def)

subsection \<open>Comparison\<close>

lemma memcmp_lexicographic:
  "(let c = memcmp mem a b (min la lb);
        r = (if c = 0 then (if la > lb then 1 else 0) - (if la < lb then 1 else 0) else c)
    in (r < 0) = (bytes_at mem a la < bytes_at mem b lb)
       \<and> (r = 0) = (bytes_at mem a la = bytes_at mem b lb)
       \<and> (0 < r) = (bytes_at mem b lb < bytes_at mem a la))"
proof (induction la arbitrary: a b lb)
  case 0
  show ?case by (cases lb) (simp_all add: Let_def)
next
  case (Suc la)
  show ?case
  proof (cases lb)
    case 0
    then show ?thesis by (simp add: Let_def)
  next
    case (Suc lb')
    show ?thesis
    proof (cases "mem a = mem b")
      case True
      with Suc.IH [of "Suc a" "Suc b" lb'] show ?thesis
        by (auto simp add: Suc Let_def min_def split: if_splits)
    next
      case False
      then have "uint (mem a) - uint (mem b) \<noteq> 0"
        by (simp add: word_uint_eq_iff)
      with False show ?thesis
        by (simp add: Suc Let_def word_less_def)
    qed
  qed
qed

lemma unat_min_length:
  fixes a b :: "64 word"
  shows "unat (if a < b then a else b) = min (unat a) (unat b)"
  by (simp add: word_less_nat_alt min_def)

text \<open>
  Claim C4. \<open>Str_richcompare\<close> answers \<^verbatim>\<open>NotImplemented\<close> when either operand exports no
  byte range. Otherwise each of the six comparisons is the lexicographic order of the two
  byte strings (bytes unsigned, a proper prefix first), and equality holds exactly when
  content and length agree; the answer reads only the exported bytes, not the owners.
\<close>

theorem Str_richcompare_lexicographic:
  "(export_string_like self = None \<or> export_string_like other = None
      \<longrightarrow> Str_richcompare mem self other op = NotImplemented)
   \<and> (export_string_like self = Some (pa, la) \<and> export_string_like other = Some (pb, lb)
      \<longrightarrow> Str_richcompare mem self other Py_LT
            = NewBool (bytes_at mem pa (unat la) < bytes_at mem pb (unat lb))
        \<and> Str_richcompare mem self other Py_LE
            = NewBool (bytes_at mem pa (unat la) \<le> bytes_at mem pb (unat lb))
        \<and> Str_richcompare mem self other Py_EQ
            = NewBool (bytes_at mem pa (unat la) = bytes_at mem pb (unat lb))
        \<and> Str_richcompare mem self other Py_NE
            = NewBool (bytes_at mem pa (unat la) \<noteq> bytes_at mem pb (unat lb))
        \<and> Str_richcompare mem self other Py_GT
            = NewBool (bytes_at mem pa (unat la) > bytes_at mem pb (unat lb))
        \<and> Str_richcompare mem self other Py_GE
            = NewBool (bytes_at mem pa (unat la) \<ge> bytes_at mem pb (unat lb)))"
proof (intro conjI impI)
  assume "export_string_like self = None \<or> export_string_like other = None"
  then show "Str_richcompare mem self other op = NotImplemented"
    by (auto simp add: Str_richcompare_def split: option.splits)
next
  assume ex: "export_string_like self = Some (pa, la) \<and> export_string_like other = Some (pb, lb)"
  let ?A = "bytes_at mem pa (unat la)" and ?B = "bytes_at mem pb (unat lb)"
  define c where "c = memcmp mem pa pb (min (unat la) (unat lb))"
  define r where "r = (if c = 0 then (if unat la > unat lb then 1 else 0)
                                   - (if unat la < unat lb then 1 else 0) else c)"
  have "(r < 0) = (?A < ?B) \<and> (r = 0) = (?A = ?B) \<and> (0 < r) = (?B < ?A)"
    using memcmp_lexicographic [of mem pa pb "unat la" "unat lb"]
    unfolding Let_def c_def r_def .
  then have sign: "(r < 0) = (?A < ?B)" "(r = 0) = (?A = ?B)" "(0 < r) = (?B < ?A)"
    by blast+
  have run: "Str_richcompare mem self other k =
      (if k = Py_LT then NewBool (r < 0)
       else if k = Py_LE then NewBool (r \<le> 0)
       else if k = Py_EQ then NewBool (r = 0)
       else if k = Py_NE then NewBool (r \<noteq> 0)
       else if k = Py_GT then NewBool (r > 0)
       else if k = Py_GE then NewBool (r \<ge> 0)
       else NotImplemented)" for k
    using ex
    by (simp add: Str_richcompare_def Let_def unat_min_length word_less_nat_alt r_def c_def)
  have le: "(r \<le> 0) = (?A \<le> ?B)" "(0 \<le> r) = (?B \<le> ?A)"
    using sign by (auto simp add: le_less)
  show "Str_richcompare mem self other Py_LT = NewBool (?A < ?B)"
    by (simp add: run sign)
  show "Str_richcompare mem self other Py_LE = NewBool (?A \<le> ?B)"
    by (simp add: run le Py_LT_def Py_LE_def)
  show "Str_richcompare mem self other Py_EQ = NewBool (?A = ?B)"
    by (simp add: run sign Py_LT_def Py_LE_def Py_EQ_def)
  show "Str_richcompare mem self other Py_NE = NewBool (?A \<noteq> ?B)"
    by (simp add: run sign Py_LT_def Py_LE_def Py_EQ_def Py_NE_def)
  show "Str_richcompare mem self other Py_GT = NewBool (?A > ?B)"
    by (simp add: run sign Py_LT_def Py_LE_def Py_EQ_def Py_NE_def Py_GT_def)
  show "Str_richcompare mem self other Py_GE = NewBool (?A \<ge> ?B)"
    by (simp add: run le Py_LT_def Py_LE_def Py_EQ_def Py_NE_def Py_GT_def Py_GE_def)
qed

theorem Str_richcompare_lexicographic_witness:
  "export_string_like (PyStr \<lparr>parent = Some 1, start_str = 100, length_str = 11\<rparr>) = Some (100, 11)
   \<and> export_string_like (PyBytes 300 11) = Some (300, 11)
   \<and> export_string_like PyOther = None
   \<and> Str_richcompare example_memory (PyStr \<lparr>parent = Some 1, start_str = 100, length_str = 11\<rparr>)
        (PyBytes 300 11) Py_EQ = NewBool True
   \<and> Str_richcompare example_memory (PyStr \<lparr>parent = Some 1, start_str = 100, length_str = 11\<rparr>)
        PyOther Py_EQ = NotImplemented"
proof -
  have h1: "export_string_like (PyStr \<lparr>parent = Some 1, start_str = 100, length_str = 11\<rparr>)
      = Some (100, 11)"
    by (simp add: export_string_like_def)
  have h2: "export_string_like (PyBytes 300 11) = Some (300, 11)"
    by (simp add: export_string_like_def)
  have h3: "export_string_like PyOther = None"
    by (simp add: export_string_like_def)
  have same: "bytes_at example_memory 100 (unat (11 :: 64 word))
      = bytes_at example_memory 300 (unat (11 :: 64 word))"
    by code_simp
  from Str_richcompare_lexicographic
         [of "PyStr \<lparr>parent = Some 1, start_str = 100, length_str = 11\<rparr>" "PyBytes 300 11"
             example_memory Py_EQ 100 11 300 11]
       Str_richcompare_lexicographic
         [of "PyStr \<lparr>parent = Some 1, start_str = 100, length_str = 11\<rparr>" PyOther
             example_memory Py_EQ 100 11 300 11]
       h1 h2 h3 same
  show ?thesis by simp
qed

subsection \<open>Containment and search\<close>

text \<open>
  Claim C5. For a needle that exports a byte range, and a kernel answer within
  \<open>[0, length]\<close>, \<open>Str_contains\<close> is true exactly when the position the kernel reports for
  (the view's range, the needle's range) is strictly below the view's length.
\<close>

theorem Str_contains_sentinel:
  assumes "export_string_like arg = Some needle"
    and "strzl_find mem (start_str self, length_str self) needle \<le> length_str self"
  shows "Str_contains strzl_find mem self arg
    = Inr (strzl_find mem (start_str self, length_str self) needle < length_str self)"
  using assms by (auto simp add: Str_contains_def Let_def)

theorem Str_contains_sentinel_witness:
  "export_string_like (PyBytes 200 3) = Some (200, 3)
   \<and> substring_find example_memory
        (start_str \<lparr>parent = None, start_str = 100, length_str = 11\<rparr>,
         length_str \<lparr>parent = None, start_str = 100, length_str = 11\<rparr>) (200, 3)
       \<le> length_str \<lparr>parent = None, start_str = 100, length_str = 11\<rparr>
   \<and> Str_contains substring_find example_memory
        \<lparr>parent = None, start_str = 100, length_str = 11\<rparr> (PyBytes 200 3) = Inr True"
proof -
  have h1: "export_string_like (PyBytes 200 3) = Some (200, 3)"
    by (simp add: export_string_like_def)
  have h2: "substring_find example_memory
        (start_str \<lparr>parent = None, start_str = 100, length_str = 11\<rparr>,
         length_str \<lparr>parent = None, start_str = 100, length_str = 11\<rparr>) (200, 3)
       \<le> length_str \<lparr>parent = None, start_str = 100, length_str = 11\<rparr>"
    by code_simp
  have h3: "substring_find example_memory
        (start_str \<lparr>parent = None, start_str = 100, length_str = 11\<rparr>,
         length_str \<lparr>parent = None, start_str = 100, length_str = 11\<rparr>) (200, 3)
       < length_str \<lparr>parent = None, start_str = 100, length_str = 11\<rparr>"
    by code_simp
  from Str_contains_sentinel
         [where strzl_find = substring_find and mem = example_memory
            and self = "\<lparr>parent = None, start_str = 100, length_str = 11\<rparr>", OF h1 h2]
       h1 h2 h3
  show ?thesis by simp
qed

text \<open>
  Claim C10. Called with a start bound, \<open>str_find_vectorcall\<close> returns the kernel's answer
  on the clamped sub-range as it is: the normalized offset moves the haystack pointer and is
  not added to the position (and the exception that converting the bound may have set stays
  pending). On \<^verbatim>\<open>"abracadabra"\<close> with needle \<^verbatim>\<open>"cad"\<close> and start 2 it
  returns 2, while the match is at index 4 of the full haystack.
\<close>

theorem str_find_vectorcall_relative_position:
  assumes "export_string_like haystack = Some (haystack_ptr, haystack_len)"
    and "export_string_like needle = Some needle_struct"
    and "slice haystack_len (fst (PyLong_AsSsize_t start)) PY_SSIZE_T_MAX = (off, n)"
  shows "str_find_vectorcall strzl_find mem [haystack, needle, start]
      = Inr (NewLong (uint (strzl_find mem (haystack_ptr + unat off, n) needle_struct)),
             snd (PyLong_AsSsize_t start))
    \<and> str_find_vectorcall substring_find example_memory [PyBytes 100 11, PyBytes 200 3, PyLong 2]
      = Inr (NewLong 2, None)
    \<and> str_find_vectorcall substring_find example_memory [PyBytes 100 11, PyBytes 200 3]
      = Inr (NewLong 4, None)
    \<and> find_first abracadabra [0x63, 0x61, 0x64] = 4"
proof -
  have general: "str_find_vectorcall strzl_find mem [haystack, needle, start]
      = Inr (NewLong (uint (strzl_find mem (haystack_ptr + unat off, n) needle_struct)),
             snd (PyLong_AsSsize_t start))"
    using assms
    by (cases "PyLong_AsSsize_t start")
      (simp add: str_find_vectorcall_def Let_def pending_after_def)
  have with_start: "str_find_vectorcall substring_find example_memory
      [PyBytes 100 11, PyBytes 200 3, PyLong 2] = Inr (NewLong 2, None)"
    by code_simp
  have without_start: "str_find_vectorcall substring_find example_memory
      [PyBytes 100 11, PyBytes 200 3] = Inr (NewLong 4, None)"
    by code_simp
  have full: "find_first abracadabra [0x63, 0x61, 0x64] = 4"
    by code_simp
  show ?thesis using general with_start without_start full by blast
qed

theorem str_find_vectorcall_relative_position_witness:
  "export_string_like (PyBytes 100 11) = Some (100, 11)
   \<and> export_string_like (PyBytes 200 3) = Some (200, 3)
   \<and> slice 11 (fst (PyLong_AsSsize_t (PyLong 2))) PY_SSIZE_T_MAX = (2, 9)
   \<and> str_find_vectorcall substring_find example_memory [PyBytes 100 11, PyBytes 200 3, PyLong 2]
      = Inr (NewLong (uint (substring_find example_memory (100 + unat (2 :: 64 word), 9) (200, 3))),
             None)
   \<and> uint (substring_find example_memory (100 + unat (2 :: 64 word), 9) (200, 3)) = 2"
proof -
  have h1: "export_string_like (PyBytes 100 11) = Some (100, 11)"
    by (simp add: export_string_like_def)
  have h2: "export_string_like (PyBytes 200 3) = Some (200, 3)"
    by (simp add: export_string_like_def)
  have h3: "slice 11 (fst (PyLong_AsSsize_t (PyLong 2))) PY_SSIZE_T_MAX = (2, 9)"
    by code_simp
  have v: "uint (substring_find example_memory (100 + unat (2 :: 64 word), 9) (200, 3)) = 2"
    by code_simp
  have e: "snd (PyLong_AsSsize_t (PyLong 2)) = None"
    by (simp add: PyLong_AsSsize_t_def)
  from str_find_vectorcall_relative_position
         [where strzl_find = substring_find and mem = example_memory, OF h1 h2 h3]
    h1 h2 h3 v e
  show ?thesis by simp
qed

subsection \<open>Indexing\<close>

lemma PyUnicode_FromStringAndSize1_not_IndexError:
  "PyUnicode_FromStringAndSize1 mem u \<noteq> Inl (IndexError msg)"
  by (simp add: PyUnicode_FromStringAndSize1_def)

lemma index_test:
  fixes len j :: "64 word"
  assumes "0 \<le> sint len"
  shows "(j <s 0 \<or> len \<le> j) = (\<not> (0 \<le> sint j \<and> sint j < uint len))"
proof (cases "0 \<le> sint j")
  case True
  then have "uint j = sint j" by (rule uint_of_nonneg_sint)
  then show ?thesis using True by (auto simp add: word_sless_alt word_le_def)
next
  case False
  then show ?thesis by (simp add: word_sless_alt)
qed

text \<open>
  Claim C6. For a view whose length fits \<^verbatim>\<open>Py_ssize_t\<close> and every signed index \<open>i\<close>,
  \<open>Str_getitem\<close> adds the length to a negative \<open>i\<close> and fails with the index error
  exactly when the adjusted index is outside \<open>[0, length)\<close>; and for every valid \<open>i\<close>
  the element at \<open>i - length\<close> is the element at \<open>i\<close>.
\<close>

theorem Str_getitem_index:
  assumes "0 \<le>s length_str self"
  shows "(Str_getitem mem self i = Inl (IndexError ''Index out of range''))
      = (\<not> (0 \<le> (if sint i < 0 then sint i + uint (length_str self) else sint i)
            \<and> (if sint i < 0 then sint i + uint (length_str self) else sint i) < uint (length_str self)))
    \<and> (0 \<le> sint i \<and> sint i < uint (length_str self)
        \<longrightarrow> Str_getitem mem self (i - length_str self) = Str_getitem mem self i)"
proof -
  let ?len = "length_str self"
  from assms have len: "0 \<le> sint ?len" by (simp add: word_sle_eq)
  then have ulen: "uint ?len = sint ?len" by (rule uint_of_nonneg_sint)
  define j where "j = (if i <s 0 then i + ?len else i)"
  have sj: "sint j = (if sint i < 0 then sint i + uint ?len else sint i)"
    unfolding j_def ulen using len by (rule sint_normalize_index)
  have "(Str_getitem mem self i = Inl (IndexError ''Index out of range''))
      = (j <s 0 \<or> ?len \<le> j)"
    by (simp add: Str_getitem_def j_def [symmetric] PyUnicode_FromStringAndSize1_not_IndexError)
  also have "\<dots> = (\<not> (0 \<le> sint j \<and> sint j < uint ?len))"
    using len by (rule index_test)
  finally have first: "(Str_getitem mem self i = Inl (IndexError ''Index out of range''))
      = (\<not> (0 \<le> sint j \<and> sint j < uint ?len))" .
  have second: "Str_getitem mem self (i - ?len) = Str_getitem mem self i"
    if valid: "0 \<le> sint i \<and> sint i < uint ?len"
  proof -
    have "sint ?len < 2 ^ 63" using sint_lt [of ?len] by simp
    with valid ulen have "- (2 ^ 63) \<le> sint i - sint ?len" "sint i - sint ?len < 2 ^ 63"
      by simp_all
    then have "sint (i - ?len) = sint i - sint ?len" by (rule sint_sub_in_range)
    with valid ulen have neg: "i - ?len <s 0" by (simp add: word_sless_alt)
    from valid have nonneg: "\<not> i <s 0" by (simp add: word_sless_alt)
    show ?thesis
      by (simp add: Str_getitem_def neg nonneg)
  qed
  show ?thesis using first second by (simp only: sj) blast
qed

theorem Str_getitem_index_witness:
  "0 \<le>s length_str \<lparr>parent = None, start_str = 100, length_str = 11\<rparr>
   \<and> Str_getitem example_memory \<lparr>parent = None, start_str = 100, length_str = 11\<rparr> (2 - 11)
     = Str_getitem example_memory \<lparr>parent = None, start_str = 100, length_str = 11\<rparr> 2
   \<and> Str_getitem example_memory \<lparr>parent = None, start_str = 100, length_str = 11\<rparr> 2
     = Inr (NewUnicode [0x72])
   \<and> Str_getitem example_memory \<lparr>parent = None, start_str = 100, length_str = 11\<rparr> 11
     = Inl (IndexError ''Index out of range'')"
proof -
  have h: "0 \<le>s length_str \<lparr>parent = None, start_str = 100, length_str = 11\<rparr>"
    by (simp add: word_sle_eq)
  have v: "Str_getitem example_memory \<lparr>parent = None, start_str = 100, length_str = 11\<rparr> 2
     = Inr (NewUnicode [0x72])"
    by code_simp
  from Str_getitem_index [OF h, of example_memory 2] Str_getitem_index [OF h, of example_memory 11]
    h v
  show ?thesis by simp
qed

subsection \<open>Hashing\<close>

lemma length_bytes_at: "length (bytes_at mem p n) = n"
  by (induction n arbitrary: p) simp_all

lemma content_pure_content_hash: "content_pure content_hash"
  by (simp add: content_pure_def content_hash_def)

text \<open>
  Claim C8. With a hash kernel that is a pure function of the bytes, two views with the same
  byte content have the same \<open>Str_hash\<close>, whatever their parents, their addresses and the
  memories they live in.
\<close>

theorem Str_hash_content_only:
  assumes "content_pure strzl_hash"
    and "bytes_at mem (start_str a) (unat (length_str a))
         = bytes_at mem' (start_str b) (unat (length_str b))"
  shows "Str_hash strzl_hash mem a = Str_hash strzl_hash mem' b"
proof -
  from assms(2) have "unat (length_str a) = unat (length_str b)"
    using length_bytes_at by metis
  then have eq: "length_str a = length_str b" by (simp only: word_unat_eq_iff)
  with assms(2) have "bytes_at mem (start_str a) (unat (length_str a))
         = bytes_at mem' (start_str b) (unat (length_str a))" by simp
  with assms(1) have "strzl_hash mem (start_str a) (length_str a)
         = strzl_hash mem' (start_str b) (length_str a)"
    unfolding content_pure_def by blast
  then show ?thesis by (simp add: Str_hash_def eq)
qed

theorem Str_hash_content_only_witness:
  "content_pure content_hash
   \<and> bytes_at example_memory (start_str \<lparr>parent = Some 1, start_str = 100, length_str = 11\<rparr>)
        (unat (length_str \<lparr>parent = Some 1, start_str = 100, length_str = 11\<rparr>))
     = bytes_at example_memory (start_str \<lparr>parent = Some 2, start_str = 300, length_str = 11\<rparr>)
        (unat (length_str \<lparr>parent = Some 2, start_str = 300, length_str = 11\<rparr>))
   \<and> Str_hash content_hash example_memory \<lparr>parent = Some 1, start_str = 100, length_str = 11\<rparr>
     = Str_hash content_hash example_memory \<lparr>parent = Some 2, start_str = 300, length_str = 11\<rparr>"
proof -
  have h: "bytes_at example_memory (start_str \<lparr>parent = Some 1, start_str = 100, length_str = 11\<rparr>)
        (unat (length_str \<lparr>parent = Some 1, start_str = 100, length_str = 11\<rparr>))
     = bytes_at example_memory (start_str \<lparr>parent = Some 2, start_str = 300, length_str = 11\<rparr>)
        (unat (length_str \<lparr>parent = Some 2, start_str = 300, length_str = 11\<rparr>))"
    by code_simp
  from Str_hash_content_only [OF content_pure_content_hash h] content_pure_content_hash h
  show ?thesis by blast
qed

end
